theory Spec2Isabelle
  imports
    Main
    "HOL-Library.Char_ord"
    "HOL-Library.List_Lexorder"
    "HOL-Library.Product_Lexorder"
    "HOL-Library.Sublist"
    "HOL-Library.Multiset"
begin

section \<open>Errors, panics and recorded effects\<close>

text \<open>
  The error values of package \<open>task\<close> that the sources name, and the opaque errors that
  the collaborators (SSH set-up, metadata store, remote commands) hand back. A Go
  \<open>error\<close> result is an \<open>error option\<close> (\<open>None\<close> is \<open>nil\<close>), a result with a value
  is a sum with the error on the left.
\<close>

datatype error = ErrNoExecutor | ErrUnsupportedRollback | ErrOther string

text \<open>A run-time panic of an index expression: the index and the length of the slice.\<close>

datatype panic = IndexOutOfRange nat nat

text \<open>
  The calls with an effect outside the process, in the order they are made. A call that
  returns an error records the error.
\<close>

datatype event =
    DestroyTombstoneCall bool "error option"
  | SaveClusterMetaCall string "error option"
  | MkdirAllCall string "error option"
  | InitConfigCall string "error option"

section \<open>Data model\<close>

text \<open>
  \<open>meta.Instance\<close> is an interface; an instance is the record of what its methods
  return. \<open>Status\<close> takes the PD list.
\<close>

record Instance =
  ID :: string
  Role :: string
  GetHost :: string
  UsedPorts :: "int list"
  UsedDirs :: "string list"
  ServiceName :: string
  Status :: "string list \<Rightarrow> string"

record component =
  Instances :: "Instance list"

record topology =
  ComponentsByStartOrder :: "component list"
  GetPDList :: "string list"

record ClusterMeta =
  User :: string
  Version :: string
  Topology :: topology

record DirPaths =
  Cache :: string

record displayOption =
  clusterName :: string
  filterRole :: "string list"
  filterNode :: "string list"

text \<open>
  Modelled from the spec: the type \<open>task.Context\<close> is declared outside the given
  sources. The spec gives it a mapping from host to remote executor, the two SSH key
  paths and a timeout. The executor type \<open>'e\<close> is left open.
\<close>

record 'e Context =
  executors :: "string \<Rightarrow> 'e option"
  sshKeyPaths :: "string \<times> string"
  timeout :: int

text \<open>
  Modelled from the spec: \<open>Context.GetExecutor\<close> returns the executor registered for
  the host and a found flag; \<open>None\<close> is \<open>found = false\<close>.
\<close>

definition GetExecutor :: "'e Context \<Rightarrow> string \<Rightarrow> 'e option" where
  "GetExecutor ctx host = executors ctx host"

text \<open>The task of \<open>init_config.go\<close>.\<close>

record InitConfig =
  ic_clusterName :: string
  ic_clusterVersion :: string
  ic_instance :: Instance
  ic_deployUser :: string
  ic_paths :: DirPaths

section \<open>The collaborators\<close>

text \<open>
  Everything the two source files call and do not define is a field of the environment:
  the functions of packages \<open>meta\<close>, \<open>operation\<close>, \<open>task\<close> and \<open>utils\<close>, the colour
  library, \<open>os.MkdirAll\<close>, \<open>sort.Slice\<close> and the Unicode case table. The persisted
  metadata is a value of the open type \<open>'d\<close> that only \<open>ClusterMetadata\<close> reads and
  only \<open>SaveClusterMeta\<close> writes. \<open>DestroyTombstone\<close> receives the topology by
  pointer, so it returns the topology it leaves behind.
\<close>

record ('e, 'd) env =
  NewContext :: "'e Context"
  SetSSHKeySet :: "'e Context \<Rightarrow> string \<Rightarrow> string \<Rightarrow> error + 'e Context"
  SetClusterSSH :: "'e Context \<Rightarrow> topology \<Rightarrow> string \<Rightarrow> int \<Rightarrow> error + 'e Context"
  sshTimeout :: int
  ClusterPath :: "string \<Rightarrow> string list \<Rightarrow> string"
  ClusterMetadata :: "string \<Rightarrow> 'd \<Rightarrow> error + ClusterMeta"
  SaveClusterMeta :: "string \<Rightarrow> ClusterMeta \<Rightarrow> 'd \<Rightarrow> error option \<times> 'd"
  NeedCheckTomebsome :: "topology \<Rightarrow> bool"
  DestroyTombstone :: "'e Context \<Rightarrow> topology \<Rightarrow> bool \<Rightarrow> (error + string list) \<times> topology"
  GetServiceStatus :: "'e \<Rightarrow> string \<Rightarrow> string \<times> error option"
  JoinInt :: "int list \<Rightarrow> string \<Rightarrow> string"
  AddStack :: "error \<Rightarrow> error"
  CyanString :: "string \<Rightarrow> string"
  GreenString :: "string \<Rightarrow> string"
  HiGreenString :: "string \<Rightarrow> string"
  YellowString :: "string \<Rightarrow> string"
  RedString :: "string \<Rightarrow> string"
  unicodeToLower :: "string \<Rightarrow> string"
  sortSlice :: "(string list \<Rightarrow> string list \<Rightarrow> bool) \<Rightarrow> string list list \<Rightarrow> string list list"
  MkdirAll :: "string \<Rightarrow> nat \<Rightarrow> error option"
  instanceInitConfig ::
    "Instance \<Rightarrow> 'e \<Rightarrow> string \<Rightarrow> string \<Rightarrow> string \<Rightarrow> DirPaths \<Rightarrow> error option"

section \<open>The string functions of the Go library\<close>

text \<open>
  A Go string is a sequence of bytes. \<open>strings.TrimSpace\<close> removes the white space of
  Unicode at both ends: the six ASCII bytes, and the UTF-8 encodings of U+0085, U+00A0,
  U+1680, U+2000 to U+200A, U+2028, U+2029, U+202F, U+205F and U+3000.
\<close>

definition whiteSpace :: "string list" where
  "whiteSpace =
     [[CHR 0x09], [CHR 0x0A], [CHR 0x0B], [CHR 0x0C], [CHR 0x0D], [CHR 0x20],
      [CHR 0xC2, CHR 0x85], [CHR 0xC2, CHR 0xA0],
      [CHR 0xE1, CHR 0x9A, CHR 0x80],
      [CHR 0xE2, CHR 0x80, CHR 0x80], [CHR 0xE2, CHR 0x80, CHR 0x81],
      [CHR 0xE2, CHR 0x80, CHR 0x82], [CHR 0xE2, CHR 0x80, CHR 0x83],
      [CHR 0xE2, CHR 0x80, CHR 0x84], [CHR 0xE2, CHR 0x80, CHR 0x85],
      [CHR 0xE2, CHR 0x80, CHR 0x86], [CHR 0xE2, CHR 0x80, CHR 0x87],
      [CHR 0xE2, CHR 0x80, CHR 0x88], [CHR 0xE2, CHR 0x80, CHR 0x89],
      [CHR 0xE2, CHR 0x80, CHR 0x8A],
      [CHR 0xE2, CHR 0x80, CHR 0xA8], [CHR 0xE2, CHR 0x80, CHR 0xA9],
      [CHR 0xE2, CHR 0x80, CHR 0xAF],
      [CHR 0xE2, CHR 0x81, CHR 0x9F],
      [CHR 0xE3, CHR 0x80, CHR 0x80]]"

text \<open>Remove, from the left, every leading occurrence of one of the patterns.\<close>

function trimLeft :: "string list \<Rightarrow> string \<Rightarrow> string" where
  "trimLeft pats s =
     (case find (\<lambda>p. p \<noteq> [] \<and> prefix p s) pats of
        None \<Rightarrow> s
      | Some p \<Rightarrow> trimLeft pats (drop (length p) s))"
  by pat_completeness auto
termination
proof (relation "measure (\<lambda>(pats, s). length s)")
  show "wf (measure (\<lambda>(pats, s). length s))" by simp
next
  fix pats :: "string list" and s p :: string
  assume "find (\<lambda>p. p \<noteq> [] \<and> prefix p s) pats = Some p"
  then have "p \<noteq> []" and "prefix p s"
    by (auto simp: find_Some_iff)
  then have "length s - length p < length s"
    by (cases p) (auto simp: prefix_def)
  then show "((pats, drop (length p) s), (pats, s)) \<in> measure (\<lambda>(pats, s). length s)"
    by simp
qed

declare trimLeft.simps [simp del]

definition TrimSpace :: "string \<Rightarrow> string" where
  "TrimSpace s = rev (trimLeft (map rev whiteSpace) (rev (trimLeft whiteSpace s)))"

text \<open>
  \<open>strings.Split\<close> with a separator of one byte, which is how the source calls it: one
  more part than there are separators, empty parts included.
\<close>

fun Split :: "string \<Rightarrow> char \<Rightarrow> string list" where
  "Split [] sep = [[]]"
| "Split (c # cs) sep =
     (if c = sep then [] # Split cs sep
      else (case Split cs sep of [] \<Rightarrow> [[c]] | p # ps \<Rightarrow> (c # p) # ps))"

text \<open>
  \<open>strings.ToLower\<close>: a string of ASCII bytes has its letters A to Z lowered; any other
  string goes through the Unicode case table, a collaborator.
\<close>

definition asciiLower :: "char \<Rightarrow> char" where
  "asciiLower c =
     (if (65::nat) \<le> of_char c \<and> of_char c \<le> (90::nat) then char_of (of_char c + (32::nat)) else c)"

definition ToLower :: "('e, 'd) env \<Rightarrow> string \<Rightarrow> string" where
  "ToLower env s =
     (if list_all (\<lambda>c. of_char c < (128::nat)) s then map asciiLower s
      else unicodeToLower env s)"

section \<open>display.go\<close>

subsection \<open>formatInstanceStatus\<close>

definition formatInstanceStatus :: "('e, 'd) env \<Rightarrow> string \<Rightarrow> string" where
  "formatInstanceStatus env status =
     (let l = ToLower env status in
      if l = ''up'' \<or> l = ''healthy'' then GreenString env status
      else if l = ''healthy|l'' then HiGreenString env status
      else if l = ''offline'' \<or> l = ''tombstone'' \<or> l = ''disconnected'' then YellowString env status
      else if l = ''down'' \<or> l = ''unhealthy'' \<or> l = ''err'' then RedString env status
      else status)"

subsection \<open>displayClusterTopology\<close>

definition header :: "string list" where
  "header = [''ID'', ''Role'', ''Host'', ''Ports'', ''Status'', ''Data Dir'', ''Deploy Dir'']"

text \<open>
  Lines 177 to 191, the status of one instance: what the instance reports, and when that
  is \<open>-\<close> and the host has an executor, the state word of the service status. The error
  of \<open>GetServiceStatus\<close> is dropped, as the blank identifier of the source does.
\<close>

definition reconcileStatus ::
    "('e, 'd) env \<Rightarrow> 'e Context \<Rightarrow> string list \<Rightarrow> Instance \<Rightarrow> string" where
  "reconcileStatus env ctx pdList ins =
     (let status = Status ins pdList in
      if status = ''-'' then
        (case GetExecutor ctx (GetHost ins) of
           None \<Rightarrow> status
         | Some e \<Rightarrow>
             (let active = fst (GetServiceStatus env e (ServiceName ins));
                  parts = Split (TrimSpace active) (CHR '' '')
              in if length parts > 2
                 then (if parts ! 1 = ''active'' then ''Up'' else parts ! 1)
                 else status))
      else status)"

text \<open>
  The body of the inner loop, lines 161 to 200: the two filters, the directories and the
  appended row. \<open>insDirs[0]\<close> on an empty slice panics.
\<close>

definition appendInstance ::
    "('e, 'd) env \<Rightarrow> 'e Context \<Rightarrow> displayOption \<Rightarrow> string list \<Rightarrow> Instance \<Rightarrow>
     string list list \<Rightarrow> panic + string list list" where
  "appendInstance env ctx opt pdList ins clusterTable =
     (let filterRoles = set (filterRole opt); filterNodes = set (filterNode opt) in
      if filterRoles \<noteq> {} \<and> Role ins \<notin> filterRoles then Inr clusterTable
      else if filterNodes \<noteq> {} \<and> ID ins \<notin> filterNodes then Inr clusterTable
      else
        (let insDirs = UsedDirs ins in
         if length insDirs = 0 then Inl (IndexOutOfRange 0 0)
         else
           (let deployDir = insDirs ! 0;
                dataDir = (if length insDirs > 1 then insDirs ! 1 else ''-'');
                status = reconcileStatus env ctx pdList ins
            in Inr (clusterTable @
                 [[CyanString env (ID ins), Role ins, GetHost ins,
                   JoinInt env (UsedPorts ins) ''/'', formatInstanceStatus env status,
                   dataDir, deployDir]]))))"

fun instancesLoop ::
    "('e, 'd) env \<Rightarrow> 'e Context \<Rightarrow> displayOption \<Rightarrow> string list \<Rightarrow> Instance list \<Rightarrow>
     string list list \<Rightarrow> panic + string list list" where
  "instancesLoop env ctx opt pdList [] clusterTable = Inr clusterTable"
| "instancesLoop env ctx opt pdList (ins # rest) clusterTable =
     (case appendInstance env ctx opt pdList ins clusterTable of
        Inl p \<Rightarrow> Inl p
      | Inr clusterTable' \<Rightarrow> instancesLoop env ctx opt pdList rest clusterTable')"

fun componentsLoop ::
    "('e, 'd) env \<Rightarrow> 'e Context \<Rightarrow> displayOption \<Rightarrow> string list \<Rightarrow> component list \<Rightarrow>
     string list list \<Rightarrow> panic + string list list" where
  "componentsLoop env ctx opt pdList [] clusterTable = Inr clusterTable"
| "componentsLoop env ctx opt pdList (cmpnt # rest) clusterTable =
     (case instancesLoop env ctx opt pdList (Instances cmpnt) clusterTable of
        Inl p \<Rightarrow> Inl p
      | Inr clusterTable' \<Rightarrow> componentsLoop env ctx opt pdList rest clusterTable')"

text \<open>The comparison handed to \<open>sort.Slice\<close>: column 1 is the role, 2 the host, 3 the ports.\<close>

definition lessRow :: "string list \<Rightarrow> string list \<Rightarrow> bool" where
  "lessRow lhs rhs =
     (if lhs ! 1 \<noteq> rhs ! 1 then lhs ! 1 < rhs ! 1
      else if lhs ! 2 \<noteq> rhs ! 2 then lhs ! 2 < rhs ! 2
      else lhs ! 3 < rhs ! 3)"

text \<open>
  What a call of \<open>displayClusterTopology\<close> ends in: a panic, a returned error, or
  \<open>nil\<close> after the table went to \<open>cliutil.PrintTable\<close>.
\<close>

datatype display_result = Panicked panic | Failed error | Printed "string list list"

definition displayClusterTopology ::
    "('e, 'd) env \<Rightarrow> displayOption \<Rightarrow> 'd \<Rightarrow> display_result" where
  "displayClusterTopology env opt d =
     (case ClusterMetadata env (clusterName opt) d of
        Inl err \<Rightarrow> Failed err
      | Inr metadata \<Rightarrow>
          (let topo = Topology metadata;
               clusterTable = [header];
               ctx = NewContext env
           in case SetSSHKeySet env ctx
                     (ClusterPath env (clusterName opt) [''ssh'', ''id_rsa''])
                     (ClusterPath env (clusterName opt) [''ssh'', ''id_rsa.pub'']) of
                Inl err \<Rightarrow> Failed (AddStack env err)
              | Inr ctx1 \<Rightarrow>
                  (case SetClusterSSH env ctx1 topo (User metadata) (sshTimeout env) of
                     Inl err \<Rightarrow> Failed (AddStack env err)
                   | Inr ctx2 \<Rightarrow>
                       (let pdList = GetPDList topo in
                        case componentsLoop env ctx2 opt pdList
                               (ComponentsByStartOrder topo) clusterTable of
                          Inl p \<Rightarrow> Panicked p
                        | Inr clusterTable' \<Rightarrow>
                            Printed (take 1 clusterTable' @
                                     sortSlice env lessRow (drop 1 clusterTable'))))))"

subsection \<open>destroyTombstoneIfNeed\<close>

text \<open>
  The result is the returned error, the calls made and the persisted metadata afterwards.
  \<open>topo\<close> is a pointer into \<open>metadata\<close>: what \<open>DestroyTombstone\<close> leaves in the topology
  is what the next call and \<open>SaveClusterMeta\<close> see. The two log lines are left out.
\<close>

definition destroyTombstoneIfNeed ::
    "('e, 'd) env \<Rightarrow> string \<Rightarrow> ClusterMeta \<Rightarrow> 'd \<Rightarrow> error option \<times> event list \<times> 'd" where
  "destroyTombstoneIfNeed env name metadata d =
     (let topo = Topology metadata in
      if \<not> NeedCheckTomebsome env topo then (None, [], d)
      else
        (let ctx = NewContext env in
         case SetSSHKeySet env ctx (ClusterPath env name [''ssh'', ''id_rsa''])
                (ClusterPath env name [''ssh'', ''id_rsa.pub'']) of
           Inl err \<Rightarrow> (Some (AddStack env err), [], d)
         | Inr ctx1 \<Rightarrow>
             (case SetClusterSSH env ctx1 topo (User metadata) (sshTimeout env) of
                Inl err \<Rightarrow> (Some (AddStack env err), [], d)
              | Inr ctx2 \<Rightarrow>
                  (case DestroyTombstone env ctx2 topo True of
                     (Inl err, topo1) \<Rightarrow>
                       (Some (AddStack env err), [DestroyTombstoneCall True (Some err)], d)
                   | (Inr nodes, topo1) \<Rightarrow>
                       if length nodes = 0 then (None, [DestroyTombstoneCall True None], d)
                       else
                         (case DestroyTombstone env ctx2 topo1 False of
                            (Inl err, topo2) \<Rightarrow>
                              (Some (AddStack env err),
                               [DestroyTombstoneCall True None,
                                DestroyTombstoneCall False (Some err)], d)
                          | (Inr unused, topo2) \<Rightarrow>
                              (case SaveClusterMeta env name
                                      (metadata\<lparr>Topology := topo2\<rparr>) d of
                                 (res, d') \<Rightarrow>
                                   (res,
                                    [DestroyTombstoneCall True None,
                                     DestroyTombstoneCall False None,
                                     SaveClusterMetaCall name res], d')))))))"

section \<open>init_config.go\<close>

text \<open>The result is the returned error and the calls made. The mode 0755 is 493.\<close>

definition Execute ::
    "('e, 'd) env \<Rightarrow> InitConfig \<Rightarrow> 'e Context \<Rightarrow> error option \<times> event list" where
  "Execute env c ctx =
     (case GetExecutor ctx (GetHost (ic_instance c)) of
        None \<Rightarrow> (Some ErrNoExecutor, [])
      | Some exec \<Rightarrow>
          (case MkdirAll env (Cache (ic_paths c)) 493 of
             Some err \<Rightarrow> (Some err, [MkdirAllCall (Cache (ic_paths c)) (Some err)])
           | None \<Rightarrow>
               (let res = instanceInitConfig env (ic_instance c) exec (ic_clusterName c)
                            (ic_clusterVersion c) (ic_deployUser c) (ic_paths c)
                in (res,
                    [MkdirAllCall (Cache (ic_paths c)) None,
                     InitConfigCall (GetHost (ic_instance c)) res]))))"

definition Rollback :: "InitConfig \<Rightarrow> 'e Context \<Rightarrow> error option \<times> event list" where
  "Rollback c ctx = (Some ErrUnsupportedRollback, [])"

section \<open>Vocabulary of the statements\<close>

text \<open>The instances that pass the role filter and the node filter, in display order.\<close>

definition passesFilters :: "displayOption \<Rightarrow> Instance \<Rightarrow> bool" where
  "passesFilters opt ins \<longleftrightarrow>
     (filterRole opt = [] \<or> Role ins \<in> set (filterRole opt)) \<and>
     (filterNode opt = [] \<or> ID ins \<in> set (filterNode opt))"

definition displayedInstances :: "displayOption \<Rightarrow> topology \<Rightarrow> Instance list" where
  "displayedInstances opt topo =
     filter (passesFilters opt) (concat (map Instances (ComponentsByStartOrder topo)))"

text \<open>The row that the loop body appends for an instance with at least one directory.\<close>

definition rowOf ::
    "('e, 'd) env \<Rightarrow> 'e Context \<Rightarrow> string list \<Rightarrow> Instance \<Rightarrow> string list" where
  "rowOf env ctx pdList ins =
     [CyanString env (ID ins), Role ins, GetHost ins, JoinInt env (UsedPorts ins) ''/'',
      formatInstanceStatus env (reconcileStatus env ctx pdList ins),
      (if length (UsedDirs ins) > 1 then UsedDirs ins ! 1 else ''-''), UsedDirs ins ! 0]"

text \<open>The sort key of a row: role, host, port string, compared lexicographically.\<close>

definition rowKey :: "string list \<Rightarrow> string \<times> string \<times> string" where
  "rowKey row = (row ! 1, row ! 2, row ! 3)"

text \<open>
  The live query of an instance fails: its host has no executor, or the status command
  returns an error and nothing that parses (at most two tokens).
\<close>

definition liveQueryFails :: "('e, 'd) env \<Rightarrow> 'e Context \<Rightarrow> Instance \<Rightarrow> bool" where
  "liveQueryFails env ctx ins \<longleftrightarrow>
     (case GetExecutor ctx (GetHost ins) of
        None \<Rightarrow> True
      | Some e \<Rightarrow>
          (case GetServiceStatus env e (ServiceName ins) of
             (active, err) \<Rightarrow>
               err \<noteq> None \<and> length (Split (TrimSpace active) (CHR '' '')) \<le> 2))"

text \<open>
  What the Go library promises of \<open>sort.Slice\<close>: the slice is permuted, and when
  the comparison is a strict weak ordering no element is less than one before it. Elements
  that compare equal may end in any order (the sort is not stable).
\<close>

definition strictWeakOrder :: "('a \<Rightarrow> 'a \<Rightarrow> bool) \<Rightarrow> bool" where
  "strictWeakOrder lt \<longleftrightarrow>
     (\<forall>a. \<not> lt a a) \<and>
     (\<forall>a b c. lt a b \<longrightarrow> lt b c \<longrightarrow> lt a c) \<and>
     (\<forall>a b c. \<not> lt a b \<longrightarrow> \<not> lt b c \<longrightarrow> \<not> lt a c)"

definition sortSliceContract :: "(('a \<Rightarrow> 'a \<Rightarrow> bool) \<Rightarrow> 'a list \<Rightarrow> 'a list) \<Rightarrow> bool" where
  "sortSliceContract srt \<longleftrightarrow>
     (\<forall>lt xs. mset (srt lt xs) = mset xs \<and>
        (strictWeakOrder lt \<longrightarrow> sorted_wrt (\<lambda>a b. \<not> lt b a) (srt lt xs)))"

section \<open>A small cluster to run the definitions on\<close>

text \<open>An insertion sort stands for \<open>sort.Slice\<close>, a decimal printer for \<open>utils.JoinInt\<close>.\<close>

fun insertBy :: "('a \<Rightarrow> 'a \<Rightarrow> bool) \<Rightarrow> 'a \<Rightarrow> 'a list \<Rightarrow> 'a list" where
  "insertBy lt x [] = [x]"
| "insertBy lt x (y # ys) = (if lt x y then x # y # ys else y # insertBy lt x ys)"

definition insertionSort :: "('a \<Rightarrow> 'a \<Rightarrow> bool) \<Rightarrow> 'a list \<Rightarrow> 'a list" where
  "insertionSort lt xs = foldr (insertBy lt) xs []"

fun decimal :: "nat \<Rightarrow> nat \<Rightarrow> string" where
  "decimal 0 n = []"
| "decimal (Suc fuel) n =
     (if n < 10 then [''0123456789'' ! n]
      else decimal fuel (n div 10) @ [''0123456789'' ! (n mod 10)])"

fun joinPorts :: "int list \<Rightarrow> string \<Rightarrow> string" where
  "joinPorts [] sep = []"
| "joinPorts [p] sep = decimal 20 (nat p)"
| "joinPorts (p # ps) sep = decimal 20 (nat p) @ sep @ joinPorts ps sep"

definition hostsOf :: "topology \<Rightarrow> string list" where
  "hostsOf topo = map GetHost (concat (map Instances (ComponentsByStartOrder topo)))"

definition isTombstone :: "topology \<Rightarrow> Instance \<Rightarrow> bool" where
  "isTombstone topo ins \<longleftrightarrow> Status ins (GetPDList topo) = ''Tombstone''"

definition tombstones :: "topology \<Rightarrow> string list" where
  "tombstones topo =
     map ID (filter (isTombstone topo) (concat (map Instances (ComponentsByStartOrder topo))))"

definition withoutTombstones :: "topology \<Rightarrow> topology" where
  "withoutTombstones topo =
     topo\<lparr>ComponentsByStartOrder :=
            map (\<lambda>c. c\<lparr>Instances := filter (\<lambda>ins. \<not> isTombstone topo ins) (Instances c)\<rparr>)
              (ComponentsByStartOrder topo)\<rparr>"

text \<open>
  The executor of a host is its name; the store is a list of saved metadata, newest
  first; every service answers with the Active line of a running unit; discovery lists
  the instances reported as Tombstone, and the destructive call takes them out of the
  topology.
\<close>

definition sampleEnv :: "(string, (string \<times> ClusterMeta) list) env" where
  "sampleEnv =
     \<lparr> NewContext = \<lparr>executors = (\<lambda>h. None), sshKeyPaths = ([], []), timeout = 0\<rparr>,
       SetSSHKeySet = (\<lambda>ctx priv pub. Inr (ctx\<lparr>sshKeyPaths := (priv, pub)\<rparr>)),
       SetClusterSSH = (\<lambda>ctx topo user t.
          Inr (ctx\<lparr>executors := (\<lambda>h. if h \<in> set (hostsOf topo) then Some h else None),
                    timeout := t\<rparr>)),
       sshTimeout = 5,
       ClusterPath = (\<lambda>name parts. name @ concat (map (\<lambda>p. ''/'' @ p) parts)),
       ClusterMetadata = (\<lambda>name d.
          case map_of d name of None \<Rightarrow> Inl (ErrOther ''no such cluster'') | Some m \<Rightarrow> Inr m),
       SaveClusterMeta = (\<lambda>name m d. (None, (name, m) # d)),
       NeedCheckTomebsome = (\<lambda>topo. True),
       DestroyTombstone = (\<lambda>ctx topo returnNodesOnly.
          (Inr (tombstones topo), if returnNodesOnly then topo else withoutTombstones topo)),
       GetServiceStatus = (\<lambda>e name. (''   Active: active (running) since Mon'', None)),
       JoinInt = joinPorts,
       AddStack = (\<lambda>err. err),
       CyanString = (\<lambda>s. s),
       GreenString = (\<lambda>s. s),
       HiGreenString = (\<lambda>s. s),
       YellowString = (\<lambda>s. s),
       RedString = (\<lambda>s. s),
       unicodeToLower = (\<lambda>s. s),
       sortSlice = insertionSort,
       MkdirAll = (\<lambda>path mode. None),
       instanceInitConfig = (\<lambda>ins e name version user paths. None) \<rparr>"

definition sampleInstance ::
    "string \<Rightarrow> string \<Rightarrow> string \<Rightarrow> int \<Rightarrow> string list \<Rightarrow> string \<Rightarrow> Instance" where
  "sampleInstance name role host port dirs st =
     \<lparr> ID = name, Role = role, GetHost = host, UsedPorts = [port], UsedDirs = dirs,
       ServiceName = role @ ''.service'', Status = (\<lambda>pdList. st) \<rparr>"

definition coordH1 :: Instance where
  "coordH1 = sampleInstance ''h1:2000'' ''coord'' ''h1'' 2000 [''/deploy/coord''] ''Up''"

definition workerH2 :: Instance where
  "workerH2 =
     sampleInstance ''h2:4000'' ''worker'' ''h2'' 4000 [''/deploy/w2'', ''/data/w2''] ''-''"

definition workerH1 :: Instance where
  "workerH1 =
     sampleInstance ''h1:3000'' ''worker'' ''h1'' 3000 [''/deploy/w1'', ''/data/w1''] ''Tombstone''"

definition sampleTopology :: topology where
  "sampleTopology =
     \<lparr> ComponentsByStartOrder =
         [\<lparr>Instances = [coordH1]\<rparr>, \<lparr>Instances = [workerH2, workerH1]\<rparr>],
       GetPDList = [''h1:2000''] \<rparr>"

text \<open>A topology with no retired node, and one whose only instance reports no directory.\<close>

definition quietTopology :: topology where
  "quietTopology =
     \<lparr> ComponentsByStartOrder = [\<lparr>Instances = [coordH1]\<rparr>], GetPDList = [''h1:2000''] \<rparr>"

definition brokenTopology :: topology where
  "brokenTopology =
     \<lparr> ComponentsByStartOrder =
         [\<lparr>Instances = [sampleInstance ''h1:2000'' ''coord'' ''h1'' 2000 [] ''Up'']\<rparr>],
       GetPDList = [''h1:2000''] \<rparr>"

definition sampleMeta :: "topology \<Rightarrow> ClusterMeta" where
  "sampleMeta topo = \<lparr>User = ''tidb'', Version = ''v4.0.0'', Topology = topo\<rparr>"

definition sampleOption :: displayOption where
  "sampleOption = \<lparr>clusterName = ''test'', filterRole = [], filterNode = []\<rparr>"

definition sampleTask :: InitConfig where
  "sampleTask =
     \<lparr> ic_clusterName = ''test'', ic_clusterVersion = ''v4.0.0'', ic_instance = coordH1,
       ic_deployUser = ''tidb'', ic_paths = \<lparr>Cache = ''/cache''\<rparr> \<rparr>"

text \<open>The context before and after \<open>SetClusterSSH\<close> in the sample environment.\<close>

definition keyedContext :: "string Context" where
  "keyedContext =
     \<lparr> executors = (\<lambda>h. None),
       sshKeyPaths = (''test/ssh/id_rsa'', ''test/ssh/id_rsa.pub''), timeout = 0 \<rparr>"

definition sampleContext :: "topology \<Rightarrow> string Context" where
  "sampleContext topo =
     \<lparr> executors = (\<lambda>h. if h \<in> set (hostsOf topo) then Some h else None),
       sshKeyPaths = (''test/ssh/id_rsa'', ''test/ssh/id_rsa.pub''), timeout = 5 \<rparr>"

text \<open>
  The same cluster when the removal of a node fails on its host, when the status command
  fails on every host, when no executor gets registered, and when the status command
  answers with a given text.
\<close>

definition failingEnv :: "(string, (string \<times> ClusterMeta) list) env" where
  "failingEnv =
     sampleEnv\<lparr>DestroyTombstone := (\<lambda>ctx topo returnNodesOnly.
       if returnNodesOnly then (Inr (tombstones topo), topo)
       else (Inl (ErrOther ''h1: connection refused''), topo))\<rparr>"

definition unreachableEnv :: "(string, (string \<times> ClusterMeta) list) env" where
  "unreachableEnv =
     sampleEnv\<lparr>GetServiceStatus := (\<lambda>e name. ([], Some (ErrOther ''ssh: timeout'')))\<rparr>"

definition isolatedEnv :: "(string, (string \<times> ClusterMeta) list) env" where
  "isolatedEnv = sampleEnv\<lparr>SetClusterSSH := (\<lambda>ctx topo user t. Inr ctx)\<rparr>"

definition answeringEnv :: "string \<Rightarrow> (string, (string \<times> ClusterMeta) list) env" where
  "answeringEnv text = sampleEnv\<lparr>GetServiceStatus := (\<lambda>e name. (text, None))\<rparr>"


section \<open>Facts about the embedding\<close>

subsection \<open>The loops of displayClusterTopology\<close>

lemma appendInstance_cases:
  "appendInstance env ctx opt pdList ins tbl =
     (if \<not> passesFilters opt ins then Inr tbl
      else if UsedDirs ins = [] then Inl (IndexOutOfRange 0 0)
      else Inr (tbl @ [rowOf env ctx pdList ins]))"
  by (auto simp: appendInstance_def passesFilters_def rowOf_def Let_def)

lemma instancesLoop_cases:
  "instancesLoop env ctx opt pdList inss tbl =
     (if \<exists>ins \<in> set (filter (passesFilters opt) inss). UsedDirs ins = []
      then Inl (IndexOutOfRange 0 0)
      else Inr (tbl @ map (rowOf env ctx pdList) (filter (passesFilters opt) inss)))"
  by (induction inss arbitrary: tbl) (auto simp: appendInstance_cases)

lemma componentsLoop_cases:
  "componentsLoop env ctx opt pdList comps tbl =
     (if \<exists>ins \<in> set (filter (passesFilters opt) (concat (map Instances comps))).
           UsedDirs ins = []
      then Inl (IndexOutOfRange 0 0)
      else Inr (tbl @ map (rowOf env ctx pdList)
                        (filter (passesFilters opt) (concat (map Instances comps)))))"
  by (induction comps arbitrary: tbl) (auto simp: instancesLoop_cases)

lemma display_cases:
  assumes "ClusterMetadata env (clusterName opt) d = Inr metadata"
    and "SetSSHKeySet env (NewContext env)
           (ClusterPath env (clusterName opt) [''ssh'', ''id_rsa''])
           (ClusterPath env (clusterName opt) [''ssh'', ''id_rsa.pub'']) = Inr ctx1"
    and "SetClusterSSH env ctx1 (Topology metadata) (User metadata) (sshTimeout env) = Inr ctx2"
  shows "displayClusterTopology env opt d =
     (if \<exists>ins \<in> set (displayedInstances opt (Topology metadata)). UsedDirs ins = []
      then Panicked (IndexOutOfRange 0 0)
      else Printed (header # sortSlice env lessRow
             (map (rowOf env ctx2 (GetPDList (Topology metadata)))
                (displayedInstances opt (Topology metadata)))))"
proof -
  have loop: "componentsLoop env ctx2 opt (GetPDList (Topology metadata))
                (ComponentsByStartOrder (Topology metadata)) [header] =
     (if \<exists>ins \<in> set (displayedInstances opt (Topology metadata)). UsedDirs ins = []
      then Inl (IndexOutOfRange 0 0)
      else Inr ([header] @ map (rowOf env ctx2 (GetPDList (Topology metadata)))
                  (displayedInstances opt (Topology metadata))))"
    unfolding displayedInstances_def by (rule componentsLoop_cases)
  show ?thesis
    using assms by (simp add: displayClusterTopology_def Let_def loop)
qed

lemma rowOf_columns:
  "rowOf env ctx pdList ins ! 4 = formatInstanceStatus env (reconcileStatus env ctx pdList ins)"
  "rowOf env ctx pdList ins ! 5 = (if length (UsedDirs ins) > 1 then UsedDirs ins ! 1 else ''-'')"
  "rowOf env ctx pdList ins ! 6 = UsedDirs ins ! 0"
  "rowKey (rowOf env ctx pdList ins) = (Role ins, GetHost ins, JoinInt env (UsedPorts ins) ''/'')"
  by (simp_all add: rowOf_def rowKey_def)

subsection \<open>The comparison and the sort\<close>

lemma lessRow_rowKey: "lessRow a b \<longleftrightarrow> rowKey a < rowKey b"
  by (auto simp: lessRow_def rowKey_def)

lemma strictWeakOrder_lessRow: "strictWeakOrder lessRow"
  unfolding strictWeakOrder_def lessRow_rowKey by auto

lemma contract_sorted_by_key:
  assumes "sortSliceContract srt"
  shows "sorted_wrt (\<lambda>a b. rowKey a \<le> rowKey b) (srt lessRow rows)"
proof -
  from assms strictWeakOrder_lessRow
  have "sorted_wrt (\<lambda>a b. \<not> lessRow b a) (srt lessRow rows)"
    unfolding sortSliceContract_def by blast
  then show ?thesis
    by (simp add: lessRow_rowKey not_less)
qed

lemma contract_mset:
  assumes "sortSliceContract srt"
  shows "mset (srt lt rows) = mset rows"
  using assms unfolding sortSliceContract_def by blast

text \<open>Three rows with keys in strict order have one sorted arrangement.\<close>

lemma sorted_three_unique:
  assumes m: "mset ys = mset [a, b, c]"
    and s: "sorted_wrt (\<lambda>u v. rowKey u \<le> rowKey v) ys"
    and cb: "rowKey c < rowKey b" and ba: "rowKey b < rowKey a"
  shows "ys = [c, b, a]"
proof -
  have s': "sorted (map rowKey ys)" using s by (simp add: sorted_map)
  have s2: "sorted (map rowKey [c, b, a])" using cb ba by auto
  have m2: "mset ys = mset [c, b, a]" using m by simp
  have "mset (map rowKey ys) = mset (map rowKey [c, b, a])" using m2 by (metis mset_map)
  with s' s2 have k: "map rowKey ys = map rowKey [c, b, a]"
    using properties_for_sort sorted_sort_id by metis
  have inj: "inj_on rowKey (set ys \<union> set [c, b, a])"
  proof -
    have "set ys = set [c, b, a]" using m2 by (metis set_mset_mset)
    then show ?thesis using cb ba by (auto simp: inj_on_def)
  qed
  from k inj show ?thesis by (rule inj_on_map_eq_map [THEN iffD1, rotated -1])
qed

text \<open>The insertion sort keeps the contract.\<close>

lemma mset_insertBy: "mset (insertBy lt x xs) = add_mset x (mset xs)"
  by (induction xs) auto

lemma mset_insertionSort: "mset (insertionSort lt xs) = mset xs"
  by (induction xs) (auto simp: insertionSort_def mset_insertBy)

lemma set_insertBy: "set (insertBy lt x xs) = insert x (set xs)"
  by (induction xs) auto

lemma sorted_insertBy:
  assumes "strictWeakOrder lt" and "sorted_wrt (\<lambda>a b. \<not> lt b a) xs"
  shows "sorted_wrt (\<lambda>a b. \<not> lt b a) (insertBy lt x xs)"
  using assms(2)
proof (induction xs)
  case Nil
  then show ?case by simp
next
  case (Cons y ys)
  from assms(1) have irr: "\<And>a. \<not> lt a a"
    and tr: "\<And>a b c. lt a b \<Longrightarrow> lt b c \<Longrightarrow> lt a c"
    unfolding strictWeakOrder_def by blast+
  show ?case
  proof (cases "lt x y")
    case True
    have "\<not> lt y x" using True tr irr by blast
    moreover have "\<not> lt z x" if "z \<in> set ys" for z
    proof -
      from Cons.prems that have "\<not> lt z y" by simp
      with True show ?thesis using tr by blast
    qed
    ultimately show ?thesis using True Cons.prems by simp
  next
    case False
    then show ?thesis using Cons by (auto simp: set_insertBy)
  qed
qed

lemma sorted_insertionSort:
  "strictWeakOrder lt \<Longrightarrow> sorted_wrt (\<lambda>a b. \<not> lt b a) (insertionSort lt xs)"
  by (induction xs) (auto simp: insertionSort_def sorted_insertBy)

lemma sortSliceContract_insertionSort: "sortSliceContract insertionSort"
  by (simp add: sortSliceContract_def mset_insertionSort sorted_insertionSort)

subsection \<open>Status strings\<close>

lemma ToLower_sentinel: "ToLower env ''-'' = ''-''"
  unfolding ToLower_def by code_simp


lemma formatInstanceStatus_sentinel: "formatInstanceStatus env ''-'' = ''-''"
  by (simp add: formatInstanceStatus_def ToLower_sentinel)


lemma reconcileStatus_found:
  assumes "Status ins pdList = ''-''" and "GetExecutor ctx (GetHost ins) = Some e"
    and "GetServiceStatus env e (ServiceName ins) = (active, err)"
  shows "reconcileStatus env ctx pdList ins =
           (if length (Split (TrimSpace active) (CHR '' '')) > 2
            then (if Split (TrimSpace active) (CHR '' '') ! 1 = ''active'' then ''Up''
                  else Split (TrimSpace active) (CHR '' '') ! 1)
            else ''-'')"
  using assms by (simp add: reconcileStatus_def Let_def)

lemma reconcileStatus_fails:
  assumes "Status ins pdList = ''-''" and "liveQueryFails env ctx ins"
  shows "reconcileStatus env ctx pdList ins = ''-''"
  using assms
  by (auto simp: reconcileStatus_def liveQueryFails_def Let_def split: option.splits prod.splits)

lemmas trim_defs = TrimSpace_def trimLeft.simps whiteSpace_def

lemma TrimSpace_empty: "TrimSpace [] = []"
  by (simp add: trim_defs)






lemma TrimSpace_two_tokens: "TrimSpace ''Active: active'' = ''Active: active''"
  by (simp add: trim_defs)

lemma TrimSpace_double_space:
  "TrimSpace ''Active:  active (running)'' = ''Active:  active (running)''"
  by (simp add: trim_defs)

lemma TrimSpace_tab:
  "TrimSpace (''Active:'' @ [CHR 0x09] @ ''active (running) now'') =
     ''Active:'' @ [CHR 0x09] @ ''active (running) now''"
  by (simp add: trim_defs)

subsection \<open>The sample cluster\<close>

lemma sampleInstance_sel:
  "ID (sampleInstance name role host port dirs st) = name"
  "Role (sampleInstance name role host port dirs st) = role"
  "GetHost (sampleInstance name role host port dirs st) = host"
  "UsedPorts (sampleInstance name role host port dirs st) = [port]"
  "UsedDirs (sampleInstance name role host port dirs st) = dirs"
  "ServiceName (sampleInstance name role host port dirs st) = role @ ''.service''"
  "Status (sampleInstance name role host port dirs st) pd = st"
  by (simp_all add: sampleInstance_def)

lemmas instance_defs = coordH1_def workerH2_def workerH1_def

lemma sampleMeta_sel: "Topology (sampleMeta topo) = topo" "User (sampleMeta topo) = ''tidb''"
  by (simp_all add: sampleMeta_def)

lemma workerH2_sel:
  "Status workerH2 pd = ''-''" "GetHost workerH2 = ''h2''"
  "ServiceName workerH2 = ''worker.service''"
  by (simp_all add: workerH2_def sampleInstance_sel)

lemma sample_store: "ClusterMetadata sampleEnv ''test'' [(''test'', m)] = Inr m"
  by (simp add: sampleEnv_def)

lemma sample_keys:
  "SetSSHKeySet sampleEnv (NewContext sampleEnv) (ClusterPath sampleEnv ''test'' [''ssh'', ''id_rsa''])
     (ClusterPath sampleEnv ''test'' [''ssh'', ''id_rsa.pub'']) = Inr keyedContext"
  by (simp add: sampleEnv_def keyedContext_def)

lemma sample_ssh:
  "SetClusterSSH sampleEnv keyedContext topo user (sshTimeout sampleEnv) = Inr (sampleContext topo)"
  by (simp add: sampleEnv_def keyedContext_def sampleContext_def)

text \<open>The variants differ from the sample environment in one collaborator each.\<close>

lemma variant_setup:
  "ClusterMetadata failingEnv = ClusterMetadata sampleEnv"
  "ClusterMetadata unreachableEnv = ClusterMetadata sampleEnv"
  "ClusterMetadata isolatedEnv = ClusterMetadata sampleEnv"
  "NewContext unreachableEnv = NewContext sampleEnv"
  "NewContext isolatedEnv = NewContext sampleEnv"
  "SetSSHKeySet unreachableEnv = SetSSHKeySet sampleEnv"
  "SetSSHKeySet isolatedEnv = SetSSHKeySet sampleEnv"
  "ClusterPath unreachableEnv = ClusterPath sampleEnv"
  "ClusterPath isolatedEnv = ClusterPath sampleEnv"
  "SetClusterSSH unreachableEnv = SetClusterSSH sampleEnv"
  "sshTimeout unreachableEnv = sshTimeout sampleEnv"
  "SetClusterSSH isolatedEnv ctx topo user t = Inr ctx"
  by (simp_all add: failingEnv_def unreachableEnv_def isolatedEnv_def)

lemma answering_query: "GetServiceStatus (answeringEnv text) e name = (text, None)"
  by (simp add: answeringEnv_def)

lemma shown_sample: "displayedInstances sampleOption sampleTopology = [coordH1, workerH2, workerH1]"
  by (simp add: displayedInstances_def sampleOption_def sampleTopology_def passesFilters_def)

lemma shown_broken:
  "displayedInstances sampleOption brokenTopology =
     [sampleInstance ''h1:2000'' ''coord'' ''h1'' 2000 [] ''Up'']"
  by (simp add: displayedInstances_def sampleOption_def brokenTopology_def passesFilters_def)

lemma sample_dirs:
  "\<forall>ins \<in> set (displayedInstances sampleOption (Topology (sampleMeta sampleTopology))).
     UsedDirs ins \<noteq> []"
  by (simp add: sampleMeta_sel shown_sample instance_defs sampleInstance_sel)

lemma sample_executor_h2: "GetExecutor (sampleContext sampleTopology) ''h2'' = Some ''h2''"
  by (simp add: GetExecutor_def sampleContext_def hostsOf_def sampleTopology_def instance_defs
        sampleInstance_sel)

lemma sample_tombstones:
  "tombstones sampleTopology = [''h1:3000'']" "tombstones quietTopology = []"
  by (simp_all add: tombstones_def isTombstone_def sampleTopology_def quietTopology_def
        instance_defs sampleInstance_sel)

lemma sample_printed:
  "displayClusterTopology sampleEnv sampleOption [(''test'', sampleMeta sampleTopology)] =
     Printed (header # sortSlice sampleEnv lessRow
       (map (rowOf sampleEnv (sampleContext sampleTopology) (GetPDList sampleTopology))
          [coordH1, workerH2, workerH1]))"
proof -
  have name: "clusterName sampleOption = ''test''" by (simp add: sampleOption_def)
  note run = display_cases [of sampleEnv sampleOption "[(''test'', sampleMeta sampleTopology)]"
      "sampleMeta sampleTopology" keyedContext "sampleContext sampleTopology",
      unfolded name sampleMeta_sel, OF sample_store sample_keys sample_ssh]
  show ?thesis
    using sample_dirs by (simp add: run shown_sample sampleMeta_sel)
qed

section \<open>The tombstone operator\<close>

text \<open>
  C1. In \<open>destroyTombstoneIfNeed\<close> the metadata is saved only after the destructive
  \<open>DestroyTombstone\<close> call has returned without error: in every run, a recorded
  \<open>SaveClusterMeta\<close> call is the third call, after a discovery and a destructive call that
  both returned \<open>nil\<close>, and the persisted metadata changes only through it. In every run
  in which the destructive call returns an error, the function returns that error (through
  \<open>errors.AddStack\<close>), \<open>SaveClusterMeta\<close> is not called and the persisted metadata is
  what it was, so loading it gives the same topology as before.
\<close>

theorem destroyTombstoneIfNeed_saves_only_after_success:
  assumes "destroyTombstoneIfNeed env name metadata d = (r, evs, d')"
  shows "(\<forall>n res. SaveClusterMetaCall n res \<in> set evs \<longrightarrow>
            evs = [DestroyTombstoneCall True None, DestroyTombstoneCall False None,
                   SaveClusterMetaCall name res]) \<and>
         (d' \<noteq> d \<longrightarrow> (\<exists>res. SaveClusterMetaCall name res \<in> set evs)) \<and>
         (\<forall>err. DestroyTombstoneCall False (Some err) \<in> set evs \<longrightarrow>
            r = Some (AddStack env err) \<and> d' = d \<and>
            ClusterMetadata env name d' = ClusterMetadata env name d \<and>
            (\<forall>n res. SaveClusterMetaCall n res \<notin> set evs))"
  using assms
  by (auto simp: destroyTombstoneIfNeed_def Let_def split: if_splits sum.splits prod.splits)

theorem destroyTombstoneIfNeed_saves_only_after_success_witness:
  "destroyTombstoneIfNeed failingEnv ''test'' (sampleMeta sampleTopology)
     [(''test'', sampleMeta sampleTopology)] =
     (Some (ErrOther ''h1: connection refused''),
      [DestroyTombstoneCall True None,
       DestroyTombstoneCall False (Some (ErrOther ''h1: connection refused''))],
      [(''test'', sampleMeta sampleTopology)]) \<and>
   ClusterMetadata failingEnv ''test'' [(''test'', sampleMeta sampleTopology)] =
     Inr (sampleMeta sampleTopology) \<and>
   destroyTombstoneIfNeed sampleEnv ''test'' (sampleMeta sampleTopology)
     [(''test'', sampleMeta sampleTopology)] =
     (None,
      [DestroyTombstoneCall True None, DestroyTombstoneCall False None,
       SaveClusterMetaCall ''test'' None],
      [(''test'', sampleMeta (withoutTombstones sampleTopology)),
       (''test'', sampleMeta sampleTopology)])"
proof -
  let ?m = "sampleMeta sampleTopology"
  have failing: "destroyTombstoneIfNeed failingEnv ''test'' ?m [(''test'', ?m)] =
     (Some (ErrOther ''h1: connection refused''),
      [DestroyTombstoneCall True None,
       DestroyTombstoneCall False (Some (ErrOther ''h1: connection refused''))],
      [(''test'', ?m)])"
    by (simp add: destroyTombstoneIfNeed_def failingEnv_def sampleEnv_def sampleMeta_sel
          sample_tombstones)
  have succeeding: "destroyTombstoneIfNeed sampleEnv ''test'' ?m [(''test'', ?m)] =
     (None,
      [DestroyTombstoneCall True None, DestroyTombstoneCall False None,
       SaveClusterMetaCall ''test'' None],
      [(''test'', sampleMeta (withoutTombstones sampleTopology)), (''test'', ?m)])"
    by (simp add: destroyTombstoneIfNeed_def sampleEnv_def sampleMeta_sel sample_tombstones)
      (simp add: sampleMeta_def)
  from destroyTombstoneIfNeed_saves_only_after_success [OF failing]
  have "ClusterMetadata failingEnv ''test'' [(''test'', ?m)] =
          ClusterMetadata failingEnv ''test'' [(''test'', ?m)]"
    by simp
  moreover from destroyTombstoneIfNeed_saves_only_after_success [OF succeeding]
  have "\<exists>res. SaveClusterMetaCall ''test'' res \<in>
          set [DestroyTombstoneCall True None, DestroyTombstoneCall False None,
               SaveClusterMetaCall ''test'' None]"
    by simp
  moreover have "ClusterMetadata failingEnv ''test'' [(''test'', ?m)] = Inr ?m"
    by (simp add: variant_setup sample_store)
  ultimately show ?thesis using failing succeeding by simp
qed

text \<open>
  C2. When the discovery call (\<open>DestroyTombstone\<close> with \<open>returnNodesOnly = true\<close>, on
  the context that the SSH set-up produced) yields no candidate node,
  \<open>destroyTombstoneIfNeed\<close> returns \<open>nil\<close>, makes no destructive \<open>DestroyTombstone\<close>
  call, does not call \<open>SaveClusterMeta\<close> and leaves the persisted metadata as it was.
\<close>

theorem destroyTombstoneIfNeed_no_candidates:
  assumes "SetSSHKeySet env (NewContext env) (ClusterPath env name [''ssh'', ''id_rsa''])
             (ClusterPath env name [''ssh'', ''id_rsa.pub'']) = Inr ctx1"
    and "SetClusterSSH env ctx1 (Topology metadata) (User metadata) (sshTimeout env) = Inr ctx2"
    and "DestroyTombstone env ctx2 (Topology metadata) True = (Inr [], topo1)"
  shows "\<exists>evs. destroyTombstoneIfNeed env name metadata d = (None, evs, d) \<and>
           (\<forall>res. DestroyTombstoneCall False res \<notin> set evs) \<and>
           (\<forall>n res. SaveClusterMetaCall n res \<notin> set evs)"
  using assms by (simp add: destroyTombstoneIfNeed_def Let_def)

theorem destroyTombstoneIfNeed_no_candidates_witness:
  "DestroyTombstone sampleEnv (sampleContext quietTopology) quietTopology True =
     (Inr [], quietTopology) \<and>
   destroyTombstoneIfNeed sampleEnv ''test'' (sampleMeta quietTopology) [] =
     (None, [DestroyTombstoneCall True None], [])"
proof -
  have disc: "DestroyTombstone sampleEnv (sampleContext quietTopology) quietTopology True =
                (Inr [], quietTopology)"
    by (simp add: sampleEnv_def sample_tombstones)
  from destroyTombstoneIfNeed_no_candidates
         [of sampleEnv "''test''" keyedContext "sampleMeta quietTopology"
             "sampleContext quietTopology" quietTopology "[]",
          unfolded sampleMeta_sel, OF sample_keys sample_ssh disc]
  obtain evs where "destroyTombstoneIfNeed sampleEnv ''test'' (sampleMeta quietTopology) [] =
                      (None, evs, [])"
    by blast
  moreover have "destroyTombstoneIfNeed sampleEnv ''test'' (sampleMeta quietTopology) [] =
                   (None, [DestroyTombstoneCall True None], [])"
    by (simp add: destroyTombstoneIfNeed_def sampleEnv_def sampleMeta_sel sample_tombstones)
  ultimately show ?thesis using disc by simp
qed

section \<open>The InitConfig task\<close>

text \<open>
  C6. \<open>Rollback\<close> of an \<open>InitConfig\<close> task returns \<open>ErrUnsupportedRollback\<close> for every
  task and every context: it never returns \<open>nil\<close>, it makes no call, and the result is
  the same for any two contexts.
\<close>

theorem Rollback_unsupported:
  "Rollback c ctx = (Some ErrUnsupportedRollback, []) \<and>
   fst (Rollback c ctx) \<noteq> None \<and>
   Rollback c ctx = Rollback c ctx'"
  by (simp add: Rollback_def)

text \<open>
  C7. When \<open>GetExecutor\<close> finds no executor for the host of the task's instance,
  \<open>Execute\<close> returns \<open>ErrNoExecutor\<close> and has made no call: no directory is created and
  no remote configuration is initialised, whatever the collaborators would have answered.
\<close>

theorem Execute_no_executor:
  assumes "GetExecutor ctx (GetHost (ic_instance c)) = None"
  shows "Execute env c ctx = (Some ErrNoExecutor, [])"
  using assms by (simp add: Execute_def)

theorem Execute_no_executor_witness:
  "GetExecutor keyedContext (GetHost (ic_instance sampleTask)) = None \<and>
   Execute sampleEnv sampleTask keyedContext = (Some ErrNoExecutor, [])"
proof -
  have none: "GetExecutor keyedContext (GetHost (ic_instance sampleTask)) = None"
    by (simp add: GetExecutor_def keyedContext_def)
  from Execute_no_executor [OF none, of sampleEnv] none show ?thesis by simp
qed

section \<open>The status table\<close>

text \<open>
  The three premises shared by the theorems on \<open>displayClusterTopology\<close> say that its
  set-up went through: the metadata was loaded and the two SSH calls returned a context.
\<close>




text \<open>
  C4. Once the set-up went through, \<open>displayClusterTopology\<close> returns no error,
  whatever the live queries answer. When every displayed instance has a directory it
  prints the table, and an instance whose own status is \<open>-\<close> and whose live query
  fails (no executor for its host, or an error with at most two tokens of output) keeps
  the status \<open>-\<close>, which is what its row shows in the Status column.
\<close>

theorem status_query_failure_keeps_sentinel:
  assumes "ClusterMetadata env (clusterName opt) d = Inr metadata"
    and "SetSSHKeySet env (NewContext env)
           (ClusterPath env (clusterName opt) [''ssh'', ''id_rsa''])
           (ClusterPath env (clusterName opt) [''ssh'', ''id_rsa.pub'']) = Inr ctx1"
    and "SetClusterSSH env ctx1 (Topology metadata) (User metadata) (sshTimeout env) = Inr ctx2"
  shows "(\<forall>err. displayClusterTopology env opt d \<noteq> Failed err) \<and>
         ((\<forall>ins \<in> set (displayedInstances opt (Topology metadata)). UsedDirs ins \<noteq> []) \<longrightarrow>
          (\<exists>rows.
             displayClusterTopology env opt d = Printed (header # sortSlice env lessRow rows) \<and>
             list_all2 (\<lambda>ins row.
                 Status ins (GetPDList (Topology metadata)) = ''-'' \<and>
                 liveQueryFails env ctx2 ins \<longrightarrow>
                 reconcileStatus env ctx2 (GetPDList (Topology metadata)) ins = ''-'' \<and>
                 row ! 4 = ''-'')
               (displayedInstances opt (Topology metadata)) rows))"
proof -
  let ?pd = "GetPDList (Topology metadata)"
  let ?shown = "displayedInstances opt (Topology metadata)"
  note run = display_cases [OF assms]
  have "\<forall>err. displayClusterTopology env opt d \<noteq> Failed err"
    by (simp add: run)
  moreover have "\<exists>rows.
             displayClusterTopology env opt d = Printed (header # sortSlice env lessRow rows) \<and>
             list_all2 (\<lambda>ins row.
                 Status ins ?pd = ''-'' \<and> liveQueryFails env ctx2 ins \<longrightarrow>
                 reconcileStatus env ctx2 ?pd ins = ''-'' \<and> row ! 4 = ''-'') ?shown rows"
    if dirs: "\<forall>ins \<in> set ?shown. UsedDirs ins \<noteq> []"
  proof (intro exI conjI)
    show "displayClusterTopology env opt d =
            Printed (header # sortSlice env lessRow (map (rowOf env ctx2 ?pd) ?shown))"
      using dirs by (simp add: run)
    show "list_all2 (\<lambda>ins row.
                 Status ins ?pd = ''-'' \<and> liveQueryFails env ctx2 ins \<longrightarrow>
                 reconcileStatus env ctx2 ?pd ins = ''-'' \<and> row ! 4 = ''-'')
            ?shown (map (rowOf env ctx2 ?pd) ?shown)"
      by (simp add: list_all2_map2 list.rel_refl_strong rowOf_columns reconcileStatus_fails
            formatInstanceStatus_sentinel)
  qed
  ultimately show ?thesis by blast
qed

theorem status_query_failure_keeps_sentinel_witness:
  "liveQueryFails unreachableEnv (sampleContext sampleTopology) workerH2 \<and>
   (\<exists>r0 r1 r2.
      displayClusterTopology unreachableEnv sampleOption [(''test'', sampleMeta sampleTopology)] =
        Printed (header # sortSlice unreachableEnv lessRow [r0, r1, r2]) \<and> r1 ! 4 = ''-'') \<and>
   liveQueryFails isolatedEnv keyedContext workerH2 \<and>
   (\<exists>r0 r1 r2.
      displayClusterTopology isolatedEnv sampleOption [(''test'', sampleMeta sampleTopology)] =
        Printed (header # sortSlice isolatedEnv lessRow [r0, r1, r2]) \<and> r1 ! 4 = ''-'')"
proof -
  let ?store = "[(''test'', sampleMeta sampleTopology)]"
  have name: "clusterName sampleOption = ''test''" by (simp add: sampleOption_def)
  have st: "Status workerH2 (GetPDList sampleTopology) = ''-''" by (simp add: workerH2_sel)
  have dirs: "\<forall>ins \<in> set [coordH1, workerH2, workerH1]. UsedDirs ins \<noteq> []"
    by (simp add: instance_defs sampleInstance_sel)
  have fails1: "liveQueryFails unreachableEnv (sampleContext sampleTopology) workerH2"
    by (simp add: liveQueryFails_def workerH2_sel sample_executor_h2 unreachableEnv_def
          TrimSpace_empty)
  have fails2: "liveQueryFails isolatedEnv keyedContext workerH2"
    by (simp add: liveQueryFails_def GetExecutor_def keyedContext_def)
  from status_query_failure_keeps_sentinel
         [of unreachableEnv sampleOption ?store "sampleMeta sampleTopology" keyedContext
             "sampleContext sampleTopology",
          unfolded name sampleMeta_sel variant_setup shown_sample,
          OF sample_store sample_keys sample_ssh] dirs
  obtain rows where
    run: "displayClusterTopology unreachableEnv sampleOption ?store =
            Printed (header # sortSlice unreachableEnv lessRow rows)"
    and rel: "list_all2 (\<lambda>ins row.
                 Status ins (GetPDList sampleTopology) = ''-'' \<and>
                 liveQueryFails unreachableEnv (sampleContext sampleTopology) ins \<longrightarrow>
                 reconcileStatus unreachableEnv (sampleContext sampleTopology)
                   (GetPDList sampleTopology) ins = ''-'' \<and>
                 row ! 4 = ''-'')
               [coordH1, workerH2, workerH1] rows"
    by blast
  from rel fails1 st obtain r0 r1 r2 where "rows = [r0, r1, r2]" and "r1 ! 4 = ''-''"
    by (auto simp: list_all2_Cons1)
  with run have one: "\<exists>r0 r1 r2.
      displayClusterTopology unreachableEnv sampleOption ?store =
        Printed (header # sortSlice unreachableEnv lessRow [r0, r1, r2]) \<and> r1 ! 4 = ''-''"
    by blast
  from status_query_failure_keeps_sentinel
         [of isolatedEnv sampleOption ?store "sampleMeta sampleTopology" keyedContext
             keyedContext,
          unfolded name sampleMeta_sel variant_setup shown_sample,
          OF sample_store sample_keys refl] dirs
  obtain rows' where
    run': "displayClusterTopology isolatedEnv sampleOption ?store =
            Printed (header # sortSlice isolatedEnv lessRow rows')"
    and rel': "list_all2 (\<lambda>ins row.
                 Status ins (GetPDList sampleTopology) = ''-'' \<and>
                 liveQueryFails isolatedEnv keyedContext ins \<longrightarrow>
                 reconcileStatus isolatedEnv keyedContext (GetPDList sampleTopology) ins = ''-'' \<and>
                 row ! 4 = ''-'')
               [coordH1, workerH2, workerH1] rows'"
    by blast
  from rel' fails2 st obtain r0 r1 r2 where "rows' = [r0, r1, r2]" and "r1 ! 4 = ''-''"
    by (auto simp: list_all2_Cons1)
  with run' have two: "\<exists>r0 r1 r2.
      displayClusterTopology isolatedEnv sampleOption ?store =
        Printed (header # sortSlice isolatedEnv lessRow [r0, r1, r2]) \<and> r1 ! 4 = ''-''"
    by blast
  from fails1 one fails2 two show ?thesis by blast
qed

text \<open>
  C5. The printed table is the header followed by the rows as \<open>sort.Slice\<close> leaves
  them: a permutation of the rows of the displayed instances, ascending in the key (role,
  host, port string) compared lexicographically. Rows with the keys (worker, h2, 4000),
  (worker, h1, 3000), (coord, h1, 2000) come out as coord/h1, worker/h1, worker/h2. The
  premise on \<open>sort.Slice\<close> is the contract of the Go library.
\<close>

theorem displayClusterTopology_sorted:
  assumes "ClusterMetadata env (clusterName opt) d = Inr metadata"
    and "SetSSHKeySet env (NewContext env)
           (ClusterPath env (clusterName opt) [''ssh'', ''id_rsa''])
           (ClusterPath env (clusterName opt) [''ssh'', ''id_rsa.pub'']) = Inr ctx1"
    and "SetClusterSSH env ctx1 (Topology metadata) (User metadata) (sshTimeout env) = Inr ctx2"
    and "displayClusterTopology env opt d = Printed t"
    and "sortSliceContract (sortSlice env)"
  shows "(\<exists>unsorted ordered. t = header # ordered \<and>
            list_all2 (\<lambda>ins row.
                rowKey row = (Role ins, GetHost ins, JoinInt env (UsedPorts ins) ''/''))
              (displayedInstances opt (Topology metadata)) unsorted \<and>
            mset ordered = mset unsorted \<and>
            sorted_wrt (\<lambda>a b. rowKey a \<le> rowKey b) ordered) \<and>
         (\<forall>a b c. rowKey a = (''worker'', ''h2'', ''4000'') \<and>
                  rowKey b = (''worker'', ''h1'', ''3000'') \<and>
                  rowKey c = (''coord'', ''h1'', ''2000'') \<longrightarrow>
                  sortSlice env lessRow [a, b, c] = [c, b, a])"
proof -
  let ?pd = "GetPDList (Topology metadata)"
  let ?shown = "displayedInstances opt (Topology metadata)"
  let ?rows = "map (rowOf env ctx2 ?pd) ?shown"
  note run = display_cases [OF assms(1-3)]
  from assms(4) have dirs: "\<forall>ins \<in> set ?shown. UsedDirs ins \<noteq> []"
    by (auto simp: run split: if_splits)
  with assms(4) have t: "t = header # sortSlice env lessRow ?rows"
    by (simp add: run)
  have keys: "list_all2 (\<lambda>ins row.
                rowKey row = (Role ins, GetHost ins, JoinInt env (UsedPorts ins) ''/''))
                ?shown ?rows"
    by (simp add: list_all2_map2 list.rel_refl_strong rowOf_columns)
  have perm: "mset (sortSlice env lessRow ?rows) = mset ?rows"
    using assms(5) by (rule contract_mset)
  have ord: "sorted_wrt (\<lambda>a b. rowKey a \<le> rowKey b) (sortSlice env lessRow ?rows)"
    using assms(5) by (rule contract_sorted_by_key)
  have first: "\<exists>unsorted ordered. t = header # ordered \<and>
            list_all2 (\<lambda>ins row.
                rowKey row = (Role ins, GetHost ins, JoinInt env (UsedPorts ins) ''/''))
              ?shown unsorted \<and>
            mset ordered = mset unsorted \<and>
            sorted_wrt (\<lambda>a b. rowKey a \<le> rowKey b) ordered"
    using t keys perm ord by blast
  have example: "sortSlice env lessRow [a, b, c] = [c, b, a]"
    if "rowKey a = (''worker'', ''h2'', ''4000'')"
      and "rowKey b = (''worker'', ''h1'', ''3000'')"
      and "rowKey c = (''coord'', ''h1'', ''2000'')" for a b c
  proof (rule sorted_three_unique)
    show "mset (sortSlice env lessRow [a, b, c]) = mset [a, b, c]"
      using assms(5) by (rule contract_mset)
    show "sorted_wrt (\<lambda>u v. rowKey u \<le> rowKey v) (sortSlice env lessRow [a, b, c])"
      using assms(5) by (rule contract_sorted_by_key)
    show "rowKey c < rowKey b" by (simp add: that)
    show "rowKey b < rowKey a" by (simp add: that)
  qed
  from first example show ?thesis by blast
qed

theorem displayClusterTopology_sorted_witness:
  "sortSliceContract (sortSlice sampleEnv) \<and>
   sortSlice sampleEnv lessRow
     [[''h2:4000'', ''worker'', ''h2'', ''4000'', ''Up'', ''/data/w2'', ''/deploy/w2''],
      [''h1:3000'', ''worker'', ''h1'', ''3000'', ''Up'', ''/data/w1'', ''/deploy/w1''],
      [''h1:2000'', ''coord'', ''h1'', ''2000'', ''Up'', ''-'', ''/deploy/coord'']] =
     [[''h1:2000'', ''coord'', ''h1'', ''2000'', ''Up'', ''-'', ''/deploy/coord''],
      [''h1:3000'', ''worker'', ''h1'', ''3000'', ''Up'', ''/data/w1'', ''/deploy/w1''],
      [''h2:4000'', ''worker'', ''h2'', ''4000'', ''Up'', ''/data/w2'', ''/deploy/w2'']] \<and>
   (\<exists>ordered.
      displayClusterTopology sampleEnv sampleOption [(''test'', sampleMeta sampleTopology)] =
        Printed (header # ordered) \<and>
      sorted_wrt (\<lambda>a b. rowKey a \<le> rowKey b) ordered)"
proof -
  let ?store = "[(''test'', sampleMeta sampleTopology)]"
  have name: "clusterName sampleOption = ''test''" by (simp add: sampleOption_def)
  have contract: "sortSliceContract (sortSlice sampleEnv)"
    by (simp add: sampleEnv_def sortSliceContract_insertionSort)
  note inst = displayClusterTopology_sorted
      [of sampleEnv sampleOption ?store "sampleMeta sampleTopology" keyedContext
          "sampleContext sampleTopology",
       unfolded name sampleMeta_sel,
       OF sample_store sample_keys sample_ssh sample_printed contract]
  from inst have ex: "sortSlice sampleEnv lessRow
     [[''h2:4000'', ''worker'', ''h2'', ''4000'', ''Up'', ''/data/w2'', ''/deploy/w2''],
      [''h1:3000'', ''worker'', ''h1'', ''3000'', ''Up'', ''/data/w1'', ''/deploy/w1''],
      [''h1:2000'', ''coord'', ''h1'', ''2000'', ''Up'', ''-'', ''/deploy/coord'']] =
     [[''h1:2000'', ''coord'', ''h1'', ''2000'', ''Up'', ''-'', ''/deploy/coord''],
      [''h1:3000'', ''worker'', ''h1'', ''3000'', ''Up'', ''/data/w1'', ''/deploy/w1''],
      [''h2:4000'', ''worker'', ''h2'', ''4000'', ''Up'', ''/data/w2'', ''/deploy/w2'']]"
    by (simp add: rowKey_def)
  from inst obtain ordered where
    "header # sortSlice sampleEnv lessRow
       (map (rowOf sampleEnv (sampleContext sampleTopology) (GetPDList sampleTopology))
          [coordH1, workerH2, workerH1]) = header # ordered"
    and "sorted_wrt (\<lambda>a b. rowKey a \<le> rowKey b) ordered"
    by blast
  with sample_printed have "\<exists>ordered.
      displayClusterTopology sampleEnv sampleOption ?store = Printed (header # ordered) \<and>
      sorted_wrt (\<lambda>a b. rowKey a \<le> rowKey b) ordered"
    by auto
  with contract ex show ?thesis by blast
qed

text \<open>
  C8. In a printed table there is one row for each displayed instance; its Deploy Dir
  column (column 6) is the first element of \<open>UsedDirs()\<close>, and its Data Dir column
  (column 5) is the second element when there is more than one, otherwise \<open>-\<close>.
\<close>

theorem displayClusterTopology_dir_columns:
  assumes "ClusterMetadata env (clusterName opt) d = Inr metadata"
    and "SetSSHKeySet env (NewContext env)
           (ClusterPath env (clusterName opt) [''ssh'', ''id_rsa''])
           (ClusterPath env (clusterName opt) [''ssh'', ''id_rsa.pub'']) = Inr ctx1"
    and "SetClusterSSH env ctx1 (Topology metadata) (User metadata) (sshTimeout env) = Inr ctx2"
    and "displayClusterTopology env opt d = Printed t"
  shows "\<exists>rows. t = header # sortSlice env lessRow rows \<and>
           header ! 5 = ''Data Dir'' \<and> header ! 6 = ''Deploy Dir'' \<and>
           (sortSliceContract (sortSlice env) \<longrightarrow> mset (tl t) = mset rows) \<and>
           list_all2 (\<lambda>ins row.
               UsedDirs ins \<noteq> [] \<and> row ! 6 = UsedDirs ins ! 0 \<and>
               row ! 5 = (if length (UsedDirs ins) > 1 then UsedDirs ins ! 1 else ''-''))
             (displayedInstances opt (Topology metadata)) rows"
proof -
  let ?pd = "GetPDList (Topology metadata)"
  let ?shown = "displayedInstances opt (Topology metadata)"
  let ?rows = "map (rowOf env ctx2 ?pd) ?shown"
  note run = display_cases [OF assms(1-3)]
  from assms(4) have dirs: "\<forall>ins \<in> set ?shown. UsedDirs ins \<noteq> []"
    by (auto simp: run split: if_splits)
  with assms(4) have t: "t = header # sortSlice env lessRow ?rows"
    by (simp add: run)
  have cols: "list_all2 (\<lambda>ins row.
               UsedDirs ins \<noteq> [] \<and> row ! 6 = UsedDirs ins ! 0 \<and>
               row ! 5 = (if length (UsedDirs ins) > 1 then UsedDirs ins ! 1 else ''-''))
             ?shown ?rows"
    using dirs by (simp add: list_all2_map2 list.rel_refl_strong rowOf_columns)
  have perm: "sortSliceContract (sortSlice env) \<longrightarrow> mset (tl t) = mset ?rows"
    by (simp add: t contract_mset)
  have "header ! 5 = ''Data Dir''" "header ! 6 = ''Deploy Dir''"
    by (simp_all add: header_def)
  with t cols perm show ?thesis by blast
qed

theorem displayClusterTopology_dir_columns_witness:
  "\<exists>r0 r1 r2.
      displayClusterTopology sampleEnv sampleOption [(''test'', sampleMeta sampleTopology)] =
        Printed (header # sortSlice sampleEnv lessRow [r0, r1, r2]) \<and>
      mset (sortSlice sampleEnv lessRow [r0, r1, r2]) = mset [r0, r1, r2] \<and>
      r0 ! 6 = ''/deploy/coord'' \<and> r0 ! 5 = ''-'' \<and>
      r1 ! 6 = ''/deploy/w2'' \<and> r1 ! 5 = ''/data/w2''"
proof -
  let ?store = "[(''test'', sampleMeta sampleTopology)]"
  have name: "clusterName sampleOption = ''test''" by (simp add: sampleOption_def)
  have contract: "sortSliceContract (sortSlice sampleEnv)"
    by (simp add: sampleEnv_def sortSliceContract_insertionSort)
  from displayClusterTopology_dir_columns
      [of sampleEnv sampleOption ?store "sampleMeta sampleTopology" keyedContext
          "sampleContext sampleTopology",
       unfolded name sampleMeta_sel shown_sample,
       OF sample_store sample_keys sample_ssh sample_printed] contract
  obtain rows where
    t: "header # sortSlice sampleEnv lessRow
          (map (rowOf sampleEnv (sampleContext sampleTopology) (GetPDList sampleTopology))
             [coordH1, workerH2, workerH1]) =
        header # sortSlice sampleEnv lessRow rows"
    and perm: "mset (sortSlice sampleEnv lessRow rows) = mset rows"
    and rel: "list_all2 (\<lambda>ins row.
               UsedDirs ins \<noteq> [] \<and> row ! 6 = UsedDirs ins ! 0 \<and>
               row ! 5 = (if length (UsedDirs ins) > 1 then UsedDirs ins ! 1 else ''-''))
             [coordH1, workerH2, workerH1] rows"
    by auto
  from rel obtain r0 r1 r2 where "rows = [r0, r1, r2]"
    and "r0 ! 6 = ''/deploy/coord''" "r0 ! 5 = ''-''"
    and "r1 ! 6 = ''/deploy/w2''" "r1 ! 5 = ''/data/w2''"
    by (auto simp: list_all2_Cons1 instance_defs sampleInstance_sel)
  with t perm sample_printed show ?thesis by auto
qed

text \<open>
  C9. \<open>UsedDirs()[0]\<close> is read for every instance that passes the two filters, with no
  check of the length: once the set-up went through, \<open>displayClusterTopology\<close> panics
  with index 0 out of range for length 0 exactly when some such instance has no
  directory, and prints a table exactly when every such instance has one.
\<close>

theorem displayClusterTopology_panics_iff_no_dirs:
  assumes "ClusterMetadata env (clusterName opt) d = Inr metadata"
    and "SetSSHKeySet env (NewContext env)
           (ClusterPath env (clusterName opt) [''ssh'', ''id_rsa''])
           (ClusterPath env (clusterName opt) [''ssh'', ''id_rsa.pub'']) = Inr ctx1"
    and "SetClusterSSH env ctx1 (Topology metadata) (User metadata) (sshTimeout env) = Inr ctx2"
  shows "(displayClusterTopology env opt d = Panicked (IndexOutOfRange 0 0) \<longleftrightarrow>
            (\<exists>ins \<in> set (displayedInstances opt (Topology metadata)). UsedDirs ins = [])) \<and>
         ((\<exists>t. displayClusterTopology env opt d = Printed t) \<longleftrightarrow>
            (\<forall>ins \<in> set (displayedInstances opt (Topology metadata)). UsedDirs ins \<noteq> []))"
  by (auto simp: display_cases [OF assms])

theorem displayClusterTopology_panics_iff_no_dirs_witness:
  "(\<exists>t. displayClusterTopology sampleEnv sampleOption [(''test'', sampleMeta sampleTopology)] =
          Printed t) \<and>
   displayClusterTopology sampleEnv sampleOption [(''test'', sampleMeta brokenTopology)] =
     Panicked (IndexOutOfRange 0 0)"
proof -
  have name: "clusterName sampleOption = ''test''" by (simp add: sampleOption_def)
  have ok: "\<forall>ins \<in> set [coordH1, workerH2, workerH1]. UsedDirs ins \<noteq> []"
    by (simp add: instance_defs sampleInstance_sel)
  have bad: "\<exists>ins \<in> set [sampleInstance ''h1:2000'' ''coord'' ''h1'' 2000 [] ''Up''].
               UsedDirs ins = []"
    by (simp add: sampleInstance_sel)
  from displayClusterTopology_panics_iff_no_dirs
      [of sampleEnv sampleOption "[(''test'', sampleMeta sampleTopology)]"
          "sampleMeta sampleTopology" keyedContext "sampleContext sampleTopology",
       unfolded name sampleMeta_sel shown_sample,
       OF sample_store sample_keys sample_ssh] ok
  have "\<exists>t. displayClusterTopology sampleEnv sampleOption
              [(''test'', sampleMeta sampleTopology)] = Printed t"
    by blast
  moreover
  from displayClusterTopology_panics_iff_no_dirs
      [of sampleEnv sampleOption "[(''test'', sampleMeta brokenTopology)]"
          "sampleMeta brokenTopology" keyedContext "sampleContext brokenTopology",
       unfolded name sampleMeta_sel shown_broken,
       OF sample_store sample_keys sample_ssh] bad
  have "displayClusterTopology sampleEnv sampleOption [(''test'', sampleMeta brokenTopology)] =
          Panicked (IndexOutOfRange 0 0)"
    by blast
  ultimately show ?thesis by blast
qed

text \<open>
  C10. The trimmed service status is split at each single space, and the status is set
  only when there are more than two parts. \<open>Active: active\<close> has two parts and leaves
  \<open>-\<close>; two spaces in a row give an empty part, so the status can be the empty string;
  a tab does not separate.
\<close>

theorem reconcileStatus_splits_on_space:
  assumes "Status ins pdList = ''-''" and "GetExecutor ctx (GetHost ins) = Some e"
    and "GetServiceStatus env e (ServiceName ins) = (active, err)"
  shows "reconcileStatus env ctx pdList ins =
           (if length (Split (TrimSpace active) (CHR '' '')) > 2
            then (if Split (TrimSpace active) (CHR '' '') ! 1 = ''active'' then ''Up''
                  else Split (TrimSpace active) (CHR '' '') ! 1)
            else ''-'') \<and>
         (active = ''Active: active'' \<longrightarrow>
            Split (TrimSpace active) (CHR '' '') = [''Active:'', ''active''] \<and>
            reconcileStatus env ctx pdList ins = ''-'') \<and>
         (active = ''Active:  active (running)'' \<longrightarrow>
            Split (TrimSpace active) (CHR '' '') = [''Active:'', [], ''active'', ''(running)''] \<and>
            reconcileStatus env ctx pdList ins = []) \<and>
         (active = ''Active:'' @ [CHR 0x09] @ ''active (running) now'' \<longrightarrow>
            Split (TrimSpace active) (CHR '' '') =
              [''Active:'' @ [CHR 0x09] @ ''active'', ''(running)'', ''now''] \<and>
            reconcileStatus env ctx pdList ins = ''(running)'')"
proof -
  note r = reconcileStatus_found [OF assms]
  have two: "Split (TrimSpace active) (CHR '' '') = [''Active:'', ''active''] \<and>
             reconcileStatus env ctx pdList ins = ''-''" if "active = ''Active: active''"
    by (simp add: r that TrimSpace_two_tokens)
  have dbl: "Split (TrimSpace active) (CHR '' '') = [''Active:'', [], ''active'', ''(running)''] \<and>
             reconcileStatus env ctx pdList ins = []" if "active = ''Active:  active (running)''"
    by (simp add: r that TrimSpace_double_space)
  have tab: "Split (TrimSpace active) (CHR '' '') =
               [''Active:'' @ [CHR 0x09] @ ''active'', ''(running)'', ''now''] \<and>
             reconcileStatus env ctx pdList ins = ''(running)''"
    if "active = ''Active:'' @ [CHR 0x09] @ ''active (running) now''"
    unfolding r that TrimSpace_tab by simp
  from r two dbl tab show ?thesis by blast
qed

theorem reconcileStatus_splits_on_space_witness:
  "reconcileStatus (answeringEnv ''Active: active'') (sampleContext sampleTopology) []
     workerH2 = ''-'' \<and>
   reconcileStatus (answeringEnv ''Active:  active (running)'') (sampleContext sampleTopology) []
     workerH2 = [] \<and>
   reconcileStatus (answeringEnv (''Active:'' @ [CHR 0x09] @ ''active (running) now''))
     (sampleContext sampleTopology) [] workerH2 = ''(running)''"
proof -
  have st: "Status workerH2 [] = ''-''" by (simp add: workerH2_sel)
  have ex: "GetExecutor (sampleContext sampleTopology) (GetHost workerH2) = Some ''h2''"
    by (simp add: workerH2_sel sample_executor_h2)
  from reconcileStatus_splits_on_space [OF st ex answering_query [of "''Active: active''"]]
  have one: "reconcileStatus (answeringEnv ''Active: active'') (sampleContext sampleTopology) []
               workerH2 = ''-''"
    by blast
  from reconcileStatus_splits_on_space
         [OF st ex answering_query [of "''Active:  active (running)''"]]
  have two: "reconcileStatus (answeringEnv ''Active:  active (running)'')
               (sampleContext sampleTopology) [] workerH2 = []"
    by blast
  from reconcileStatus_splits_on_space
         [OF st ex answering_query [of "''Active:'' @ [CHR 0x09] @ ''active (running) now''"]]
  have three: "reconcileStatus (answeringEnv (''Active:'' @ [CHR 0x09] @ ''active (running) now''))
                 (sampleContext sampleTopology) [] workerH2 = ''(running)''"
    by blast
  from one two three show ?thesis by blast
qed

end
